theory Spec2Isabelle
  imports Main "HOL-Library.Word"
begin

section \<open>The status data model (models.py)\<close>

subsection \<open>Python string formatting\<close>

text \<open>
  An f-string field \<open>{v}\<close> inserts \<open>str(v)\<close>: a string as it is, an integer in decimal
  (with a leading minus sign when negative) and \<open>None\<close> as the four characters \<open>None\<close>.
\<close>

fun str_nat :: "nat \<Rightarrow> string" where
  "str_nat n =
     (if n < 10 then [''0123456789'' ! n]
      else str_nat (n div 10) @ [''0123456789'' ! (n mod 10)])"

declare str_nat.simps [simp del]

definition str_int :: "int \<Rightarrow> string" where
  "str_int i = (if i < 0 then ''-'' @ str_nat (nat (- i)) else str_nat (nat i))"

definition str_opt :: "string option \<Rightarrow> string" where
  "str_opt v = (case v of None \<Rightarrow> ''None'' | Some s \<Rightarrow> s)"

definition str_opt_int :: "int option \<Rightarrow> string" where
  "str_opt_int v = (case v of None \<Rightarrow> ''None'' | Some i \<Rightarrow> str_int i)"

subsection \<open>Components\<close>

text \<open>
  \<open>Phone\<close>, \<open>Hardware\<close>, \<open>Recording\<close> and \<open>NetworkDevice\<close> are named tuples; their fields
  are kept by position, in the order of the class bodies. \<open>Sensor\<close> is a record, since
  its fields are read by name.
\<close>

datatype battery_state = OK | LOW | CRITICAL

datatype Phone = Phone int battery_state string string string int battery_state "int option"

datatype Hardware = Hardware string string string string

datatype NetworkDevice = NetworkDevice string string string bool

datatype Recording = Recording string string string int

record Sensor =
  sensor :: string
  conn_type :: string
  connected :: bool
  ip :: "string option"
  params :: "string option"
  port :: "int option"
  protocol :: string

text \<open>
  The constructor call \<open>Sensor(sensor=n, conn_type=c)\<close>: every other field takes the
  default of the class body.
\<close>

definition Sensor_default :: "string \<Rightarrow> string \<Rightarrow> Sensor" where
  "Sensor_default n c =
     \<lparr>sensor = n, conn_type = c, connected = False, ip = None, params = None,
      port = None, protocol = ''rtsp''\<rparr>"

text \<open>The property \<open>Sensor.url\<close>.\<close>

definition url :: "Sensor \<Rightarrow> string option" where
  "url s =
     (if connected s
      then Some (protocol s @ ''://'' @ str_opt (ip s) @ '':'' @ str_opt_int (port s)
                 @ ''/?'' @ str_opt (params s))
      else None)"

text \<open>The enumerations \<open>Sensor.Name\<close> and \<open>Sensor.Connection\<close> with their values.\<close>

datatype Name = Name_ANY | GAZE | WORLD | IMU | EYES

datatype Connection = Connection_ANY | WEBSOCKET | DIRECT

fun Name_value :: "Name \<Rightarrow> string option" where
  "Name_value Name_ANY = None"
| "Name_value GAZE = Some ''gaze''"
| "Name_value WORLD = Some ''world''"
| "Name_value IMU = Some ''imu''"
| "Name_value EYES = Some ''eyes''"

fun Connection_value :: "Connection \<Rightarrow> string option" where
  "Connection_value Connection_ANY = None"
| "Connection_value WEBSOCKET = Some ''WEBSOCKET''"
| "Connection_value DIRECT = Some ''DIRECT''"

datatype Component =
  CPhone Phone
| CHardware Hardware
| CSensor Sensor
| CRecording Recording
| CNetworkDevice NetworkDevice

subsection \<open>Status\<close>

record Status =
  phone :: Phone
  hardware :: Hardware
  sensors :: "Sensor list"
  recording :: "Recording option"

text \<open>
  The loop of \<open>Status.update\<close> over \<open>enumerate(self.sensors)\<close>: the first entry with the
  component's \<open>sensor\<close> and \<open>conn_type\<close> is overwritten and the loop breaks.
\<close>

definition same_key :: "Sensor \<Rightarrow> Sensor \<Rightarrow> bool" where
  "same_key s c \<longleftrightarrow> sensor s = sensor c \<and> conn_type s = conn_type c"

fun update_sensors :: "Sensor list \<Rightarrow> Sensor \<Rightarrow> Sensor list" where
  "update_sensors [] c = []"
| "update_sensors (s # ss) c =
     (if same_key s c then c # ss else s # update_sensors ss c)"

text \<open>\<open>Status.update\<close> mutates \<open>self\<close>; the model returns the status after the call.\<close>

fun update :: "Status \<Rightarrow> Component \<Rightarrow> Status" where
  "update st (CPhone p) = st\<lparr>phone := p\<rparr>"
| "update st (CHardware h) = st\<lparr>hardware := h\<rparr>"
| "update st (CRecording r) = st\<lparr>recording := Some r\<rparr>"
| "update st (CSensor c) = st\<lparr>sensors := update_sensors (sensors st) c\<rparr>"
| "update st (CNetworkDevice d) = st"

text \<open>
  The generator \<open>Status.matching_sensors\<close>, as the list of the sensors it yields, in
  order.
\<close>

fun matching_sensors_list :: "Sensor list \<Rightarrow> Name \<Rightarrow> Connection \<Rightarrow> Sensor list" where
  "matching_sensors_list [] name connection = []"
| "matching_sensors_list (s # ss) name connection =
     (if name \<noteq> Name_ANY \<and> Some (sensor s) \<noteq> Name_value name
        then matching_sensors_list ss name connection
      else if connection \<noteq> Connection_ANY \<and> Some (conn_type s) \<noteq> Connection_value connection
        then matching_sensors_list ss name connection
      else s # matching_sensors_list ss name connection)"

definition matching_sensors :: "Status \<Rightarrow> Name \<Rightarrow> Connection \<Rightarrow> Sensor list" where
  "matching_sensors st name connection = matching_sensors_list (sensors st) name connection"

text \<open>\<open>next(iterator, default)\<close>: the first element, or the default when there is none.\<close>

definition next_or :: "'a list \<Rightarrow> 'a \<Rightarrow> 'a" where
  "next_or xs d = (case xs of [] \<Rightarrow> d | x # _ \<Rightarrow> x)"

text \<open>
  The four \<open>direct_*_sensor\<close> methods are annotated \<open>Optional[Sensor]\<close>, so the model's
  result type is \<open>Sensor option\<close>, with \<open>None\<close> for Python's \<open>None\<close>.
\<close>

definition direct_world_sensor :: "Status \<Rightarrow> Sensor option" where
  "direct_world_sensor st =
     Some (next_or (matching_sensors st WORLD DIRECT) (Sensor_default ''world'' ''DIRECT''))"

definition direct_gaze_sensor :: "Status \<Rightarrow> Sensor option" where
  "direct_gaze_sensor st =
     Some (next_or (matching_sensors st GAZE DIRECT) (Sensor_default ''gaze'' ''DIRECT''))"

definition direct_imu_sensor :: "Status \<Rightarrow> Sensor option" where
  "direct_imu_sensor st =
     Some (next_or (matching_sensors st IMU DIRECT) (Sensor_default ''imu'' ''DIRECT''))"

definition direct_eyes_sensor :: "Status \<Rightarrow> Sensor option" where
  "direct_eyes_sensor st =
     Some (next_or (matching_sensors st EYES DIRECT) (Sensor_default ''eyes'' ''DIRECT''))"

section \<open>The streaming core (streaming/base.py, streaming/gaze.py)\<close>

text \<open>
  The package \<open>streaming\<close> re-exports \<open>SDPDataNotAvailableError\<close>, \<open>RTSPRawStreamer\<close> and
  \<open>receive_raw_rtsp_data\<close> from \<open>streaming/base.py\<close> and \<open>receive_gaze_data\<close> from
  \<open>streaming/gaze.py\<close>. Neither module is among the sources, which hold only the
  re-exports and one caller (\<open>examples/async/stream_gaze.py\<close>). Every definition of this
  section is therefore written from the specification, sections 3, 4 and 7.
\<close>

subsection \<open>Data model\<close>

text \<open>
  Modelled from the spec: the reasons of a \<open>TransportError\<close> (section 4.2); the class is
  raised in \<open>streaming/base.py\<close>, which is missing.
\<close>

datatype reason = timeout | reset | protocol_violation

text \<open>
  Modelled from the spec: the two terminal failures of a connection attempt (section 7).
  \<open>DescriptorUnavailableError\<close> is \<open>SDPDataNotAvailableError\<close> of the missing
  \<open>streaming/base.py\<close>.
\<close>

datatype failure = DescriptorUnavailableError | TransportError reason

text \<open>
  Modelled from the spec: what the caller's sequence ends with (section 4.4), a failure
  or a clean end of stream when the remote closed gracefully; the code that surfaces it
  is in the missing \<open>streaming/base.py\<close>.
\<close>

datatype ending = Failed failure | EndOfStream

text \<open>
  Modelled from the spec: \<open>StreamState\<close> (section 3), the states of the Reconnect
  Supervisor, whose code (the \<open>run_loop\<close> of \<open>receive_gaze_data\<close>) is missing.
\<close>

datatype StreamState = Connecting | Streaming | Disconnected | Closed

text \<open>
  Modelled from the spec: \<open>RawPacket\<close> (section 3); the class (\<open>RTSPData\<close>) is in the
  missing \<open>streaming/base.py\<close>.
\<close>

record RawPacket =
  payload :: "8 word list"
  transport_timestamp :: int
  sequence_number :: int

text \<open>
  Modelled from the spec: \<open>SessionDescriptor\<close> (section 3), the parsed session metadata;
  the parsing code is in the missing \<open>streaming/base.py\<close>.
\<close>

record SessionDescriptor =
  media_format :: string
  clock_rate :: nat
  payload_type :: nat

subsection \<open>Session Descriptor Resolver\<close>

text \<open>
  Modelled from the spec: what the endpoint's control channel gives the resolver (section
  4.1), nothing within the bounded timeout or the text of a description; the fetching
  code is in the missing \<open>streaming/base.py\<close>. The timeout itself is not modelled, only
  its outcome.
\<close>

datatype response = NoDescription | Description string

text \<open>
  Modelled from the spec: the resolver's contract (section 4.1), whose code is in the
  missing \<open>streaming/base.py\<close>. It fails with \<open>DescriptorUnavailableError\<close> when no
  description is exposed or when the description does not parse. The grammar of a valid
  description is not in the specification, so the parser is a parameter.
\<close>

definition resolve ::
  "(string \<Rightarrow> SessionDescriptor option) \<Rightarrow> response \<Rightarrow> failure + SessionDescriptor" where
  "resolve parse r =
     (case r of
        NoDescription \<Rightarrow> Inl DescriptorUnavailableError
      | Description txt \<Rightarrow>
          (case parse txt of
             None \<Rightarrow> Inl DescriptorUnavailableError
           | Some d \<Rightarrow> Inr d))"

subsection \<open>Gaze decoder\<close>

text \<open>
  Modelled from the spec: the fixed-size binary record of a gaze payload (section 4.3).
  The decoding code (\<open>streaming/gaze.py\<close>) is missing and the specification gives neither
  the byte layout nor the ranges of the fields, so the size, the range check and the
  reading of the fields are parameters.
\<close>

record 's layout =
  record_size :: nat
  in_range :: "8 word list \<Rightarrow> bool"
  sample_of :: "RawPacket \<Rightarrow> 's"

text \<open>
  Modelled from the spec: a record is malformed when it has the wrong size or
  out-of-range fields (section 4.3); the check is in the missing \<open>streaming/gaze.py\<close>.
\<close>

definition well_formed :: "'s layout \<Rightarrow> RawPacket \<Rightarrow> bool" where
  "well_formed L p \<longleftrightarrow> length (payload p) = record_size L \<and> in_range L (payload p)"

text \<open>
  Modelled from the spec: the capability of a payload decoder, "consume \<open>RawPacket\<close>,
  produce zero-or-one typed sample" (section 4.3), for the gaze decoder of the missing
  \<open>streaming/gaze.py\<close>: one sample for a well-formed packet, none for a malformed one.
\<close>

definition gaze_decode :: "'s layout \<Rightarrow> RawPacket \<Rightarrow> 's option" where
  "gaze_decode L p = (if well_formed L p then Some (sample_of L p) else None)"

text \<open>
  Modelled from the spec: what the gaze decoder of the missing \<open>streaming/gaze.py\<close> has
  done so far: the samples emitted, in order, the warnings logged and the packets
  consumed.
\<close>

record 's decoder =
  samples :: "'s list"
  warnings :: nat
  consumed :: nat

text \<open>
  Modelled from the spec: one packet fed to the gaze decoder of the missing
  \<open>streaming/gaze.py\<close> (section 4.3). A malformed record is dropped with a logged warning
  and the sequence continues.
\<close>

definition feed :: "'s layout \<Rightarrow> 's decoder \<Rightarrow> RawPacket \<Rightarrow> 's decoder" where
  "feed L d p =
     (case gaze_decode L p of
        Some x \<Rightarrow> d\<lparr>samples := samples d @ [x], consumed := consumed d + 1\<rparr>
      | None \<Rightarrow> d\<lparr>warnings := warnings d + 1, consumed := consumed d + 1\<rparr>)"

text \<open>
  Modelled from the spec: the gaze decoder of the missing \<open>streaming/gaze.py\<close> run over a
  sequence of raw packets, in arrival order.
\<close>

definition gaze_decoder :: "'s layout \<Rightarrow> RawPacket list \<Rightarrow> 's decoder" where
  "gaze_decoder L ps = foldl (feed L) \<lparr>samples = [], warnings = 0, consumed = 0\<rparr> ps"

subsection \<open>Transport Session and Reconnect Supervisor\<close>

text \<open>
  Modelled from the spec: what the network and the consumer can do to a running stream
  (sections 4.1, 4.2 and 4.4), the code receiving it being in the missing
  \<open>streaming/base.py\<close>: the outcome of the descriptor fetch, the outcome of the handshake
  (\<open>None\<close> for success), the arrival of a packet, and the three ways a packet sequence
  terminates: (a) the remote endpoint closes the transport, (b) a transport-level error,
  (c) explicit cancellation by the consumer.
\<close>

datatype event =
  Fetched response
| Handshake "reason option"
| Packet RawPacket
| RemoteClose
| TransportFault reason
| Cancel

text \<open>
  Modelled from the spec: what the stream does that the claims speak of, in the missing
  \<open>streaming/base.py\<close>: it resolves a descriptor, opens the network resource at the
  handshake, requests the next packet of the transport, releases the resource, and ends a
  connection attempt with a cause.
\<close>

datatype action =
  Resolved SessionDescriptor
| OpenResource
| RequestPacket
| ReleaseResource
| EndAttempt ending

text \<open>
  Modelled from the spec: the arguments of the stream factory (section 6), whose code
  (\<open>receive_gaze_data\<close>) is missing: \<open>restart_on_disconnect\<close> is its \<open>run_loop\<close>; the
  description parser and the selected payload decoder stand for the code the
  specification does not detail.
\<close>

record 's config =
  restart_on_disconnect :: bool
  parse :: "string \<Rightarrow> SessionDescriptor option"
  decode :: "RawPacket \<Rightarrow> 's option"

text \<open>
  Modelled from the spec: the state of one stream of the missing \<open>receive_gaze_data\<close>: the
  supervisor's \<open>StreamState\<close>, the descriptor of the current connection attempt, the cause
  of the last disconnect, the cause surfaced to the caller, the samples yielded so far
  and the actions done so far, oldest first.
\<close>

record 's supervisor =
  state :: StreamState
  descriptor :: "SessionDescriptor option"
  cause :: "ending option"
  surfaced :: "ending option"
  emitted :: "'s list"
  actions :: "action list"

text \<open>
  Modelled from the spec: a stream of the missing \<open>receive_gaze_data\<close> as the factory
  returns it (section 2): connecting, with nothing resolved, yielded or done.
\<close>

definition init :: "'s supervisor" where
  "init = \<lparr>state = Connecting, descriptor = None, cause = None, surfaced = None,
           emitted = [], actions = []\<rparr>"

text \<open>
  Modelled from the spec: the end of a connection attempt, in the missing
  \<open>streaming/base.py\<close>: resolver and transport failures are not retried where they
  happen but propagated to the supervisor with their cause (sections 4.1, 4.2).
\<close>

definition disconnect :: "ending \<Rightarrow> 's supervisor \<Rightarrow> 's supervisor" where
  "disconnect c s =
     s\<lparr>state := Disconnected, cause := Some c, actions := actions s @ [EndAttempt c]\<rparr>"

text \<open>
  Modelled from the spec: the release of the network resource when the packet sequence
  terminates (section 4.2), in the missing \<open>streaming/base.py\<close>.
\<close>

definition release :: "'s supervisor \<Rightarrow> 's supervisor" where
  "release s = s\<lparr>actions := actions s @ [ReleaseResource]\<rparr>"

text \<open>
  Modelled from the spec: the transitions of sections 4.1 to 4.4 up to \<open>Disconnected\<close>,
  for the missing \<open>receive_gaze_data\<close>; \<open>None\<close> when the event cannot happen in the state.
  \<^item> \<open>Connecting\<close>, no descriptor yet: the resolver's result either gives the attempt its
    descriptor or ends the attempt.
  \<^item> \<open>Connecting\<close>, descriptor resolved: a successful handshake opens the resource, the
    state becomes \<open>Streaming\<close> and the first packet is requested; a failed one ends the
    attempt with a \<open>TransportError\<close>.
  \<^item> \<open>Streaming\<close>: a packet goes through the decoder, which yields zero or one sample,
    and the next packet is requested; remote close and transport error release the
    resource and end the attempt.
  \<^item> \<open>Streaming\<close> or \<open>Connecting\<close>: the consumer's cancellation closes the stream,
    releasing the resource when one is open.
\<close>

fun react :: "'s config \<Rightarrow> 's supervisor \<Rightarrow> event \<Rightarrow> 's supervisor option" where
  "react cfg s (Fetched r) =
     (if state s = Connecting \<and> descriptor s = None then
        (case resolve (parse cfg) r of
           Inl f \<Rightarrow> Some (disconnect (Failed f) s)
         | Inr d \<Rightarrow> Some (s\<lparr>descriptor := Some d, actions := actions s @ [Resolved d]\<rparr>))
      else None)"
| "react cfg s (Handshake h) =
     (if state s = Connecting \<and> descriptor s \<noteq> None then
        (case h of
           Some r \<Rightarrow> Some (disconnect (Failed (TransportError r)) s)
         | None \<Rightarrow>
             Some (s\<lparr>state := Streaming,
                     actions := actions s @ [OpenResource, RequestPacket]\<rparr>))
      else None)"
| "react cfg s (Packet p) =
     (if state s = Streaming then
        (case decode cfg p of
           Some x \<Rightarrow>
             Some (s\<lparr>emitted := emitted s @ [x], actions := actions s @ [RequestPacket]\<rparr>)
         | None \<Rightarrow> Some (s\<lparr>actions := actions s @ [RequestPacket]\<rparr>))
      else None)"
| "react cfg s RemoteClose =
     (if state s = Streaming then Some (disconnect EndOfStream (release s)) else None)"
| "react cfg s (TransportFault r) =
     (if state s = Streaming then Some (disconnect (Failed (TransportError r)) (release s))
      else None)"
| "react cfg s Cancel =
     (if state s = Streaming then Some ((release s)\<lparr>state := Closed\<rparr>)
      else if state s = Connecting then Some (s\<lparr>state := Closed\<rparr>)
      else None)"

text \<open>
  Modelled from the spec: the supervisor's decision in \<open>Disconnected\<close> (section 4.4), for
  the missing \<open>receive_gaze_data\<close>: back to \<open>Connecting\<close>, resolving the descriptor from
  scratch, only if restart-on-disconnect is configured; otherwise \<open>Closed\<close>, with the
  cause surfaced to the caller.
\<close>

definition supervise :: "'s config \<Rightarrow> 's supervisor \<Rightarrow> 's supervisor" where
  "supervise cfg s =
     (if state s = Disconnected then
        (if restart_on_disconnect cfg
         then s\<lparr>state := Connecting, descriptor := None, cause := None\<rparr>
         else s\<lparr>state := Closed, surfaced := cause s\<rparr>)
      else s)"

text \<open>
  Modelled from the spec: one step of a stream of the missing \<open>receive_gaze_data\<close>: the
  transition the event causes, followed at once by the supervisor's decision (reconnection
  is immediate, section 4.4).
\<close>

definition step :: "'s config \<Rightarrow> 's supervisor \<Rightarrow> event \<Rightarrow> 's supervisor option" where
  "step cfg s e = map_option (supervise cfg) (react cfg s e)"

text \<open>
  Modelled from the spec: a stream of the missing \<open>receive_gaze_data\<close> taken through a
  sequence of events; \<open>None\<close> when one of them cannot happen where it stands.
\<close>

fun run :: "'s config \<Rightarrow> 's supervisor \<Rightarrow> event list \<Rightarrow> 's supervisor option" where
  "run cfg s [] = Some s"
| "run cfg s (e # es) = (case step cfg s e of None \<Rightarrow> None | Some s' \<Rightarrow> run cfg s' es)"

subsection \<open>Predicates on events and actions\<close>

text \<open>
  The events that end a connection attempt other than by the consumer's cancellation: a
  failed resolution, a failed handshake, a remote close, a transport error.
\<close>

fun disconnects :: "'s config \<Rightarrow> event \<Rightarrow> bool" where
  "disconnects cfg (Fetched r) = isl (resolve (parse cfg) r)"
| "disconnects cfg (Handshake h) = (h \<noteq> None)"
| "disconnects cfg RemoteClose = True"
| "disconnects cfg (TransportFault r) = True"
| "disconnects cfg e = False"

text \<open>
  Reading a list of actions from the oldest on, \<open>resource_held h\<close> tells whether the
  network resource is held at its end, given that it is (\<open>h\<close>) or is not held at its start.
  The result is \<open>None\<close> when the list opens a resource while one is held or releases one
  that is not.
\<close>

fun resource_held :: "bool \<Rightarrow> action list \<Rightarrow> bool option" where
  "resource_held h [] = Some h"
| "resource_held h (OpenResource # as) = (if h then None else resource_held True as)"
| "resource_held h (ReleaseResource # as) = (if h then resource_held False as else None)"
| "resource_held h (a # as) = resource_held h as"

text \<open>
  \<open>descriptor_held h\<close> tells whether the current connection attempt has a resolved
  descriptor at the end of a list of actions. The result is \<open>None\<close> when the list
  requests a packet in an attempt that has resolved none.
\<close>

fun descriptor_held :: "bool \<Rightarrow> action list \<Rightarrow> bool option" where
  "descriptor_held h [] = Some h"
| "descriptor_held h (Resolved d # as) = descriptor_held True as"
| "descriptor_held h (EndAttempt c # as) = descriptor_held False as"
| "descriptor_held h (RequestPacket # as) = (if h then descriptor_held h as else None)"
| "descriptor_held h (a # as) = descriptor_held h as"

text \<open>The invariant of a stream that the proofs below carry through every run.\<close>

definition supervisor_inv :: "'s supervisor \<Rightarrow> bool" where
  "supervisor_inv s \<longleftrightarrow>
     state s \<noteq> Disconnected
     \<and> resource_held False (actions s) = Some (state s = Streaming)
     \<and> (state s = Streaming \<longrightarrow> descriptor s \<noteq> None)
     \<and> (if state s = Closed then descriptor_held False (actions s) \<noteq> None
         else descriptor_held False (actions s) = Some (descriptor s \<noteq> None))"

text \<open>
  Sample values for the scenarios of section 8 of the specification: a parser that
  accepts one description, a layout of 26-byte records whose sample is the packet's
  timestamp, a well-formed and a truncated packet, and the events of a session that
  delivers two packets.
\<close>

definition sample_parse :: "string \<Rightarrow> SessionDescriptor option" where
  "sample_parse txt =
     (if txt = ''m=application 0 RTP/AVP 96''
      then Some \<lparr>media_format = ''gaze'', clock_rate = 90000, payload_type = 96\<rparr>
      else None)"

definition sample_layout :: "int layout" where
  "sample_layout =
     \<lparr>record_size = 26, in_range = (\<lambda>b. True), sample_of = transport_timestamp\<rparr>"

definition gaze_packet :: "int \<Rightarrow> RawPacket" where
  "gaze_packet t = \<lparr>payload = replicate 26 0, transport_timestamp = t, sequence_number = t\<rparr>"

definition truncated_packet :: "int \<Rightarrow> RawPacket" where
  "truncated_packet t =
     \<lparr>payload = replicate 25 0, transport_timestamp = t, sequence_number = t\<rparr>"

definition sample_config :: "bool \<Rightarrow> int config" where
  "sample_config restart =
     \<lparr>restart_on_disconnect = restart, parse = sample_parse,
      decode = gaze_decode sample_layout\<rparr>"

definition two_packets :: "event list" where
  "two_packets =
     [Fetched (Description ''m=application 0 RTP/AVP 96''), Handshake None,
      Packet (gaze_packet 1), Packet (gaze_packet 2)]"

section \<open>Predicates and sample values for the status data model\<close>

definition rtsp_scheme :: "string \<Rightarrow> bool" where
  "rtsp_scheme u \<longleftrightarrow> take 7 u = ''rtsp://''"

definition is_direct :: "string \<Rightarrow> Sensor \<Rightarrow> bool" where
  "is_direct n s \<longleftrightarrow> sensor s = n \<and> conn_type s = ''DIRECT''"

definition http_sensor :: Sensor where
  "http_sensor =
     \<lparr>sensor = ''gaze'', conn_type = ''DIRECT'', connected = True, ip = Some ''10.0.0.2'',
      params = Some ''camera=gaze'', port = Some 8086, protocol = ''http''\<rparr>"

definition gaze_sensor :: Sensor where
  "gaze_sensor =
     \<lparr>sensor = ''gaze'', conn_type = ''DIRECT'', connected = True, ip = Some ''10.0.0.2'',
      params = Some ''camera=gaze'', port = Some 8086, protocol = ''rtsp''\<rparr>"

definition stale_sensor :: Sensor where
  "stale_sensor =
     \<lparr>sensor = ''gaze'', conn_type = ''DIRECT'', connected = True, ip = Some ''10.0.0.9'',
      params = Some ''camera=gaze'', port = Some 8086, protocol = ''rtsp''\<rparr>"

definition bare_sensor :: Sensor where
  "bare_sensor = (Sensor_default ''gaze'' ''DIRECT'')\<lparr>connected := True\<rparr>"

definition partial_sensor :: Sensor where
  "partial_sensor =
     \<lparr>sensor = ''gaze'', conn_type = ''DIRECT'', connected = True, ip = None,
      params = Some ''camera=gaze'', port = Some 8086, protocol = ''rtsp''\<rparr>"

definition websocket_sensor :: Sensor where
  "websocket_sensor =
     \<lparr>sensor = ''gaze'', conn_type = ''WEBSOCKET'', connected = True, ip = Some ''10.0.0.2'',
      params = Some ''camera=gaze'', port = Some 8686, protocol = ''ws''\<rparr>"

definition status_with :: "Sensor list \<Rightarrow> Status" where
  "status_with ss =
     \<lparr>phone = Phone 80 OK ''1234'' ''phone'' ''10.0.0.2'' 1000 OK None,
      hardware = Hardware ''unknown'' ''unknown'' ''unknown'' ''unknown'',
      sensors = ss, recording = None\<rparr>"

section \<open>Properties of the status data model\<close>

lemmas str_simps = url_def str_opt_def str_opt_int_def str_int_def str_nat.simps

subsection \<open>Sensor.url\<close>

text \<open>
  C7, as the specification states it: the URL of every connected sensor has the RTSP
  scheme. It fails: \<open>protocol\<close> is a field of the sensor like any other, \<open>rtsp\<close> being only
  its default, and a connected sensor whose \<open>protocol\<close> is \<open>http\<close> has an \<open>http\<close> URL.
\<close>

theorem url_scheme_not_always_rtsp:
  "connected http_sensor \<and> url http_sensor = Some ''http://10.0.0.2:8086/?camera=gaze''
   \<and> \<not> rtsp_scheme ''http://10.0.0.2:8086/?camera=gaze''"
  by (simp add: http_sensor_def rtsp_scheme_def str_simps)

text \<open>
  C7, amended: the URL of a connected sensor is
  \<open><protocol>://<ip>:<port>/?<params>\<close>, each part formatted from the sensor's own field,
  and it has the RTSP scheme when the sensor's \<open>protocol\<close> field is \<open>rtsp\<close>.
\<close>

theorem url_form:
  "connected s \<Longrightarrow>
     url s = Some (protocol s @ ''://'' @ str_opt (ip s) @ '':'' @ str_opt_int (port s)
                   @ ''/?'' @ str_opt (params s))
     \<and> (protocol s = ''rtsp'' \<longrightarrow> (\<exists>u. url s = Some u \<and> rtsp_scheme u))"
  by (simp add: url_def rtsp_scheme_def)

theorem url_form_witness:
  "connected gaze_sensor \<and> protocol gaze_sensor = ''rtsp''
   \<and> url gaze_sensor = Some ''rtsp://10.0.0.2:8086/?camera=gaze''
   \<and> rtsp_scheme ''rtsp://10.0.0.2:8086/?camera=gaze''"
proof -
  have c: "connected gaze_sensor" by (simp add: gaze_sensor_def)
  have p: "protocol gaze_sensor = ''rtsp''" by (simp add: gaze_sensor_def)
  from url_form [OF c] p obtain u where u: "url gaze_sensor = Some u" "rtsp_scheme u"
    by blast
  have "url gaze_sensor = Some ''rtsp://10.0.0.2:8086/?camera=gaze''"
    by (simp add: gaze_sensor_def str_simps)
  with u c p show ?thesis by simp
qed

text \<open>
  C9: \<open>url\<close> is \<open>None\<close> exactly when the sensor is not connected. For every connected
  sensor it is the string \<open><protocol>://<ip>:<port>/?<params>\<close>, each part formatted from the
  sensor's field: a string as it is, a port in decimal, and an \<open>ip\<close>, \<open>port\<close> or \<open>params\<close>
  that is \<open>None\<close> as the text \<open>None\<close>.
\<close>

theorem url_None_iff_not_connected:
  "(url s = None \<longleftrightarrow> \<not> connected s)
   \<and> (connected s \<longrightarrow> (\<exists>u. url s = Some u))
   \<and> (connected s \<longrightarrow>
        url s = Some (protocol s @ ''://'' @ str_opt (ip s) @ '':'' @ str_opt_int (port s)
                      @ ''/?'' @ str_opt (params s)))
   \<and> str_opt None = ''None'' \<and> str_opt_int None = ''None''
   \<and> (\<forall>x. str_opt (Some x) = x) \<and> (\<forall>i. str_opt_int (Some i) = str_int i)
   \<and> (connected s \<and> ip s = None \<and> port s = None \<and> params s = None \<longrightarrow>
        url s = Some (protocol s @ ''://None:None/?None''))"
  by (simp add: url_def str_opt_def str_opt_int_def)

theorem url_None_iff_not_connected_witness:
  "connected bare_sensor \<and> ip bare_sensor = None \<and> port bare_sensor = None
   \<and> params bare_sensor = None \<and> url bare_sensor = Some ''rtsp://None:None/?None''
   \<and> connected partial_sensor \<and> ip partial_sensor = None
   \<and> url partial_sensor = Some ''rtsp://None:8086/?camera=gaze''
   \<and> \<not> connected (Sensor_default ''gaze'' ''DIRECT'')
   \<and> url (Sensor_default ''gaze'' ''DIRECT'') = None"
proof -
  have b: "connected bare_sensor \<and> ip bare_sensor = None \<and> port bare_sensor = None
      \<and> params bare_sensor = None"
    by (simp add: bare_sensor_def Sensor_default_def)
  have pr: "protocol bare_sensor = ''rtsp''"
    by (simp add: bare_sensor_def Sensor_default_def)
  have p: "connected partial_sensor \<and> ip partial_sensor = None
      \<and> port partial_sensor = Some 8086 \<and> params partial_sensor = Some ''camera=gaze''
      \<and> protocol partial_sensor = ''rtsp''"
    by (simp add: partial_sensor_def)
  have n: "str_int 8086 = ''8086''"
    by (simp add: str_int_def str_nat.simps)
  have d: "\<not> connected (Sensor_default ''gaze'' ''DIRECT'')"
    by (simp add: Sensor_default_def)
  from url_None_iff_not_connected [of bare_sensor] b pr
  have u1: "url bare_sensor = Some ''rtsp://None:None/?None''"
    by simp
  from url_None_iff_not_connected [of partial_sensor] p
  have "url partial_sensor = Some (''rtsp'' @ ''://'' @ ''None'' @ '':'' @ str_int 8086
      @ ''/?'' @ ''camera=gaze'')"
    by simp
  then have u2: "url partial_sensor = Some ''rtsp://None:8086/?camera=gaze''"
    by (simp add: n)
  from url_None_iff_not_connected [of "Sensor_default ''gaze'' ''DIRECT''"] d
  have u3: "url (Sensor_default ''gaze'' ''DIRECT'') = None"
    by blast
  from b p d u1 u2 u3 show ?thesis by simp
qed

subsection \<open>The direct sensors of a status\<close>

lemma matching_direct_filter:
  "Name_value n = Some v \<Longrightarrow> matching_sensors_list ss n DIRECT = filter (is_direct v) ss"
  by (induction ss) (auto simp: is_direct_def)

lemma next_or_filter_none:
  "\<forall>s \<in> set ss. \<not> P s \<Longrightarrow> next_or (filter P ss) d = d"
  by (induction ss) (auto simp: next_or_def)

lemma next_or_matching_none:
  "Name_value n = Some v \<Longrightarrow> \<forall>s \<in> set ss. \<not> is_direct v s \<Longrightarrow>
   next_or (matching_sensors_list ss n DIRECT) d = d"
  by (simp only: matching_direct_filter next_or_filter_none)

text \<open>
  C8: each of the four \<open>direct_*_sensor\<close> methods returns a sensor, never \<open>None\<close>; when the
  status has no \<open>DIRECT\<close> sensor of that name, the result is the default sensor of that
  name, which is not connected.
\<close>

theorem direct_sensors_never_None:
  "(\<exists>s. direct_gaze_sensor st = Some s) \<and> (\<exists>s. direct_world_sensor st = Some s)
   \<and> (\<exists>s. direct_imu_sensor st = Some s) \<and> (\<exists>s. direct_eyes_sensor st = Some s)
   \<and> ((\<forall>s \<in> set (sensors st). \<not> is_direct ''gaze'' s) \<longrightarrow>
        direct_gaze_sensor st = Some (Sensor_default ''gaze'' ''DIRECT''))
   \<and> ((\<forall>s \<in> set (sensors st). \<not> is_direct ''world'' s) \<longrightarrow>
        direct_world_sensor st = Some (Sensor_default ''world'' ''DIRECT''))
   \<and> ((\<forall>s \<in> set (sensors st). \<not> is_direct ''imu'' s) \<longrightarrow>
        direct_imu_sensor st = Some (Sensor_default ''imu'' ''DIRECT''))
   \<and> ((\<forall>s \<in> set (sensors st). \<not> is_direct ''eyes'' s) \<longrightarrow>
        direct_eyes_sensor st = Some (Sensor_default ''eyes'' ''DIRECT''))
   \<and> (\<forall>n. \<not> connected (Sensor_default n ''DIRECT'')
          \<and> sensor (Sensor_default n ''DIRECT'') = n)"
proof -
  have ex: "(\<exists>s. direct_gaze_sensor st = Some s) \<and> (\<exists>s. direct_world_sensor st = Some s)
      \<and> (\<exists>s. direct_imu_sensor st = Some s) \<and> (\<exists>s. direct_eyes_sensor st = Some s)"
    by (simp add: direct_gaze_sensor_def direct_world_sensor_def direct_imu_sensor_def
        direct_eyes_sensor_def)
  have g: "(\<forall>s \<in> set (sensors st). \<not> is_direct ''gaze'' s) \<longrightarrow>
      direct_gaze_sensor st = Some (Sensor_default ''gaze'' ''DIRECT'')"
    by (simp add: direct_gaze_sensor_def matching_sensors_def next_or_matching_none)
  have w: "(\<forall>s \<in> set (sensors st). \<not> is_direct ''world'' s) \<longrightarrow>
      direct_world_sensor st = Some (Sensor_default ''world'' ''DIRECT'')"
    by (simp add: direct_world_sensor_def matching_sensors_def next_or_matching_none)
  have i: "(\<forall>s \<in> set (sensors st). \<not> is_direct ''imu'' s) \<longrightarrow>
      direct_imu_sensor st = Some (Sensor_default ''imu'' ''DIRECT'')"
    by (simp add: direct_imu_sensor_def matching_sensors_def next_or_matching_none)
  have e: "(\<forall>s \<in> set (sensors st). \<not> is_direct ''eyes'' s) \<longrightarrow>
      direct_eyes_sensor st = Some (Sensor_default ''eyes'' ''DIRECT'')"
    by (simp add: direct_eyes_sensor_def matching_sensors_def next_or_matching_none)
  have d: "\<forall>n. \<not> connected (Sensor_default n ''DIRECT'')
      \<and> sensor (Sensor_default n ''DIRECT'') = n"
    by (simp add: Sensor_default_def)
  from ex g w i e d show ?thesis by blast
qed

theorem direct_sensors_never_None_witness:
  "sensors (status_with [websocket_sensor]) = [websocket_sensor]
   \<and> conn_type websocket_sensor \<noteq> ''DIRECT''
   \<and> direct_gaze_sensor (status_with [websocket_sensor])
       = Some (Sensor_default ''gaze'' ''DIRECT'')
   \<and> direct_world_sensor (status_with [websocket_sensor])
       = Some (Sensor_default ''world'' ''DIRECT'')
   \<and> direct_imu_sensor (status_with [websocket_sensor])
       = Some (Sensor_default ''imu'' ''DIRECT'')
   \<and> direct_eyes_sensor (status_with [websocket_sensor])
       = Some (Sensor_default ''eyes'' ''DIRECT'')
   \<and> \<not> connected (Sensor_default ''gaze'' ''DIRECT'')"
proof -
  have h: "\<forall>n. \<forall>s \<in> set (sensors (status_with [websocket_sensor])). \<not> is_direct n s"
    by (simp add: status_with_def websocket_sensor_def is_direct_def)
  have s: "sensors (status_with [websocket_sensor]) = [websocket_sensor]
      \<and> conn_type websocket_sensor \<noteq> ''DIRECT''"
    by (simp add: status_with_def websocket_sensor_def)
  from h s direct_sensors_never_None [of "status_with [websocket_sensor]"] show ?thesis
    by blast
qed

subsection \<open>Status.update\<close>

lemma update_sensors_length: "length (update_sensors ss c) = length ss"
  by (induction ss) auto

lemma update_sensors_none:
  "\<forall>s \<in> set ss. \<not> same_key s c \<Longrightarrow> update_sensors ss c = ss"
  by (induction ss) auto

lemma update_sensors_first:
  "i < length ss \<Longrightarrow> same_key (ss ! i) c \<Longrightarrow> (\<forall>j < i. \<not> same_key (ss ! j) c) \<Longrightarrow>
   update_sensors ss c = ss[i := c]"
proof (induction ss arbitrary: i)
  case Nil
  then show ?case by simp
next
  case (Cons s ss)
  show ?case
  proof (cases i)
    case 0
    with Cons.prems show ?thesis by simp
  next
    case (Suc k)
    from Cons.prems(3) Suc have hd: "\<not> same_key s c"
      by (metis nth_Cons_0 zero_less_Suc)
    have "\<forall>j < k. \<not> same_key (ss ! j) c"
      using Cons.prems(3) Suc by (metis Suc_mono nth_Cons_Suc)
    with Cons.IH [of k] Cons.prems Suc hd show ?thesis by simp
  qed
qed

text \<open>
  C10: updating a status with a sensor component leaves \<open>phone\<close>, \<open>hardware\<close> and
  \<open>recording\<close> as they were and never changes the length of the sensor list; the list is
  unchanged when no entry has the component's \<open>(sensor, conn_type)\<close> pair, and otherwise
  only the first such entry is replaced by the component.
\<close>

theorem update_sensor_frame:
  fixes st :: Status and c :: Sensor
  defines "st' \<equiv> update st (CSensor c)"
  shows "phone st' = phone st \<and> hardware st' = hardware st \<and> recording st' = recording st
    \<and> length (sensors st') = length (sensors st)
    \<and> ((\<forall>s \<in> set (sensors st). \<not> same_key s c) \<longrightarrow> sensors st' = sensors st)
    \<and> (\<forall>i < length (sensors st).
          same_key (sensors st ! i) c \<and> (\<forall>j < i. \<not> same_key (sensors st ! j) c)
          \<longrightarrow> sensors st' = (sensors st)[i := c])"
  unfolding st'_def
  by (simp add: update_sensors_length update_sensors_none update_sensors_first)

theorem update_sensor_frame_witness:
  "\<not> same_key websocket_sensor gaze_sensor
   \<and> sensors (update (status_with [websocket_sensor]) (CSensor gaze_sensor))
       = [websocket_sensor]
   \<and> same_key stale_sensor gaze_sensor
   \<and> sensors (update (status_with [websocket_sensor, stale_sensor, stale_sensor])
                (CSensor gaze_sensor))
       = [websocket_sensor, gaze_sensor, stale_sensor]"
proof -
  let ?a = "status_with [websocket_sensor]"
  let ?b = "status_with [websocket_sensor, stale_sensor, stale_sensor]"
  have na: "\<forall>s \<in> set (sensors ?a). \<not> same_key s gaze_sensor"
    by (simp add: status_with_def same_key_def websocket_sensor_def gaze_sensor_def)
  have sa: "sensors ?a = [websocket_sensor]"
    by (simp add: status_with_def)
  have sb: "sensors ?b = [websocket_sensor, stale_sensor, stale_sensor]"
    by (simp add: status_with_def)
  have ks: "same_key stale_sensor gaze_sensor"
    by (simp add: same_key_def stale_sensor_def gaze_sensor_def)
  have kw: "\<not> same_key websocket_sensor gaze_sensor"
    by (simp add: same_key_def websocket_sensor_def gaze_sensor_def)
  have k1: "same_key (sensors ?b ! 1) gaze_sensor"
    by (simp add: sb ks)
  have k0: "\<forall>j < 1. \<not> same_key (sensors ?b ! j) gaze_sensor"
    by (simp add: sb kw)
  have l: "1 < length (sensors ?b)"
    by (simp add: sb)
  from update_sensor_frame [of ?a gaze_sensor] na sa
  have ra: "sensors (update ?a (CSensor gaze_sensor)) = [websocket_sensor]"
    by simp
  from update_sensor_frame [of ?b gaze_sensor] l k1 k0
  have "sensors (update ?b (CSensor gaze_sensor)) = (sensors ?b)[1 := gaze_sensor]"
    by blast
  then have rb: "sensors (update ?b (CSensor gaze_sensor))
      = [websocket_sensor, gaze_sensor, stale_sensor]"
    by (simp add: sb)
  from kw ra ks rb show ?thesis by blast
qed

section \<open>Properties of the streaming core\<close>

lemma run_snoc:
  "run cfg s (es @ [e]) = (case run cfg s es of None \<Rightarrow> None | Some s' \<Rightarrow> step cfg s' e)"
  by (induction es arbitrary: s) (auto split: option.splits)

lemma resource_held_append:
  "resource_held h (xs @ ys) =
     (case resource_held h xs of None \<Rightarrow> None | Some h' \<Rightarrow> resource_held h' ys)"
  by (induction h xs rule: resource_held.induct) auto

lemma descriptor_held_append:
  "descriptor_held h (xs @ ys) =
     (case descriptor_held h xs of None \<Rightarrow> None | Some h' \<Rightarrow> descriptor_held h' ys)"
  by (induction h xs rule: descriptor_held.induct) auto

lemmas step_defs = step_def supervise_def disconnect_def release_def

lemma inv_init: "supervisor_inv init"
  by (simp add: supervisor_inv_def init_def)

lemma inv_step: "supervisor_inv s \<Longrightarrow> step cfg s e = Some s' \<Longrightarrow> supervisor_inv s'"
  by (cases e)
    (auto simp: supervisor_inv_def step_defs resource_held_append descriptor_held_append
      split: if_splits sum.splits option.splits)

lemma inv_run: "supervisor_inv s \<Longrightarrow> run cfg s es = Some s' \<Longrightarrow> supervisor_inv s'"
  by (induction es arbitrary: s) (auto split: option.splits dest: inv_step)


lemma step_Closed: "state s = Closed \<Longrightarrow> step cfg s e = None"
  by (cases e) (simp_all add: step_def)

lemma run_Closed: "state s = Closed \<Longrightarrow> run cfg s es = Some s' \<Longrightarrow> s' = s"
  by (cases es) (simp_all add: step_Closed)

lemma react_disconnects:
  "disconnects cfg e \<Longrightarrow> react cfg s e = Some s0 \<Longrightarrow> state s0 = Disconnected"
  by (cases e) (auto simp: disconnect_def release_def split: if_splits sum.splits option.splits)

lemma disconnect_closes:
  assumes "\<not> restart_on_disconnect cfg" and "disconnects cfg e" and "step cfg s e = Some s'"
  shows "state s' = Closed"
proof -
  from assms(3) obtain s0 where s0: "react cfg s e = Some s0" "s' = supervise cfg s0"
    by (auto simp: step_def)
  from assms(2) s0(1) have "state s0 = Disconnected" by (rule react_disconnects)
  with assms(1) s0(2) show ?thesis by (simp add: supervise_def)
qed

lemma no_disconnect_before:
  "\<not> restart_on_disconnect cfg \<Longrightarrow> run cfg s es = Some s' \<Longrightarrow> state s' \<noteq> Closed \<Longrightarrow>
   e \<in> set es \<Longrightarrow> \<not> disconnects cfg e"
proof (induction es arbitrary: s)
  case Nil
  then show ?case by simp
next
  case (Cons x xs)
  from Cons.prems(2) obtain s1 where s1: "step cfg s x = Some s1" "run cfg s1 xs = Some s'"
    by (auto split: option.splits)
  have "\<not> disconnects cfg x"
  proof
    assume "disconnects cfg x"
    then have "state s1 = Closed"
      using Cons.prems(1) s1(1) by (blast intro: disconnect_closes)
    moreover from this s1(2) have "s' = s1" by (blast intro: run_Closed)
    ultimately show False using Cons.prems(3) by simp
  qed
  with Cons.IH [OF Cons.prems(1) s1(2) Cons.prems(3)] Cons.prems(4) show ?case by auto
qed

lemma restart_step:
  "restart_on_disconnect cfg \<Longrightarrow> e \<noteq> Cancel \<Longrightarrow> step cfg s e = Some s' \<Longrightarrow>
   state s \<noteq> Closed \<and> surfaced s = None \<Longrightarrow> state s' \<noteq> Closed \<and> surfaced s' = None"
  by (cases e) (auto simp: step_defs split: if_splits sum.splits option.splits)

lemma restart_run:
  "restart_on_disconnect cfg \<Longrightarrow> Cancel \<notin> set es \<Longrightarrow> run cfg s es = Some s' \<Longrightarrow>
   state s \<noteq> Closed \<and> surfaced s = None \<Longrightarrow> state s' \<noteq> Closed \<and> surfaced s' = None"
proof (induction es arbitrary: s)
  case Nil
  then show ?case by simp
next
  case (Cons x xs)
  from Cons.prems(3) obtain s1 where s1: "step cfg s x = Some s1" "run cfg s1 xs = Some s'"
    by (auto split: option.splits)
  from Cons.prems(2) have x: "x \<noteq> Cancel" and xs: "Cancel \<notin> set xs" by auto
  from restart_step [OF Cons.prems(1) x s1(1) Cons.prems(4)]
  have "state s1 \<noteq> Closed \<and> surfaced s1 = None" .
  with Cons.IH [OF Cons.prems(1) xs s1(2)] show ?case .
qed

lemma never_stuck:
  "supervisor_inv s \<Longrightarrow> state s \<noteq> Closed \<Longrightarrow> \<exists>e s'. e \<noteq> Cancel \<and> step cfg s e = Some s'"
proof (cases "state s")
  case Connecting
  show ?thesis
  proof (cases "descriptor s")
    case None
    with Connecting have "step cfg s (Fetched NoDescription) \<noteq> None"
      by (simp add: step_def resolve_def)
    then show ?thesis by blast
  next
    case (Some d)
    with Connecting have "step cfg s (Handshake None) \<noteq> None"
      by (simp add: step_def)
    then show ?thesis by blast
  qed
next
  case Streaming
  then have "step cfg s RemoteClose \<noteq> None" by (simp add: step_def)
  then show ?thesis by blast
next
  case Disconnected
  moreover assume "supervisor_inv s"
  ultimately show ?thesis by (simp add: supervisor_inv_def)
next
  case Closed
  moreover assume "state s \<noteq> Closed"
  ultimately show ?thesis by simp
qed

lemma fault_closes:
  "\<not> restart_on_disconnect cfg \<Longrightarrow> state s = Streaming \<Longrightarrow>
   \<exists>s'. step cfg s (TransportFault r) = Some s' \<and> state s' = Closed
     \<and> surfaced s' = Some (Failed (TransportError r)) \<and> emitted s' = emitted s"
  by (simp add: step_defs)

lemma resolve_fails: "isl (resolve p r) \<Longrightarrow> resolve p r = Inl DescriptorUnavailableError"
  by (auto simp: resolve_def split: response.splits option.splits)

lemma close_closes:
  "\<not> restart_on_disconnect cfg \<Longrightarrow> state s = Streaming \<Longrightarrow>
   \<exists>s'. step cfg s RemoteClose = Some s' \<and> state s' = Closed
     \<and> surfaced s' = Some EndOfStream \<and> emitted s' = emitted s"
  by (simp add: step_defs)

lemma handshake_closes:
  "\<not> restart_on_disconnect cfg \<Longrightarrow> state s = Connecting \<Longrightarrow> descriptor s \<noteq> None \<Longrightarrow>
   \<exists>s'. step cfg s (Handshake (Some r)) = Some s' \<and> state s' = Closed
     \<and> surfaced s' = Some (Failed (TransportError r)) \<and> emitted s' = emitted s"
  by (simp add: step_defs)

lemma fetch_closes:
  "\<not> restart_on_disconnect cfg \<Longrightarrow> state s = Connecting \<Longrightarrow> descriptor s = None \<Longrightarrow>
   isl (resolve (parse cfg) resp) \<Longrightarrow>
   \<exists>s'. step cfg s (Fetched resp) = Some s' \<and> state s' = Closed
     \<and> surfaced s' = Some (Failed DescriptorUnavailableError) \<and> emitted s' = emitted s"
  by (simp add: step_defs resolve_fails)

lemma react_disconnects_cause:
  "disconnects cfg e \<Longrightarrow> react cfg s e = Some s0 \<Longrightarrow>
   state s0 = Disconnected \<and> cause s0 \<noteq> None \<and> emitted s0 = emitted s"
  by (cases e) (auto simp: disconnect_def release_def split: if_splits sum.splits option.splits)

lemma disconnect_surfaces:
  assumes "\<not> restart_on_disconnect cfg" and "disconnects cfg e" and "step cfg s e = Some s'"
  shows "state s' = Closed \<and> surfaced s' \<noteq> None \<and> emitted s' = emitted s"
proof -
  from assms(3) obtain s0 where s0: "react cfg s e = Some s0" "s' = supervise cfg s0"
    by (auto simp: step_def)
  from assms(2) s0(1)
  have "state s0 = Disconnected \<and> cause s0 \<noteq> None \<and> emitted s0 = emitted s"
    by (rule react_disconnects_cause)
  with assms(1) s0(2) show ?thesis by (simp add: supervise_def)
qed

lemma run_ends:
  "run cfg s0 evs = Some s \<Longrightarrow>
   \<exists>s'. step cfg s e = Some s' \<and> state s' = Closed \<and> surfaced s' = Some c
     \<and> emitted s' = emitted s \<Longrightarrow>
   \<exists>s'. run cfg s0 (evs @ [e]) = Some s' \<and> state s' = Closed \<and> surfaced s' = Some c
     \<and> emitted s' = emitted s \<and> (\<forall>e'. step cfg s' e' = None)"
  by (auto simp: run_snoc step_Closed)

text \<open>
  C1: with restart-on-disconnect, a stream that the consumer does not cancel is never
  closed and never surfaces a cause, whatever the network does, and it can always go on:
  the sequence is infinite. No stream ever rests in \<open>Disconnected\<close>. Without
  restart-on-disconnect, a stream that is not closed has seen no disconnect yet, and the
  first disconnect closes it for good, with no sample lost or added and its cause
  surfaced: the \<open>TransportError\<close> of a transport fault while streaming or of a failed
  handshake, a clean end of stream for a remote close, and
  \<open>DescriptorUnavailableError\<close> for a failed resolution.
\<close>

theorem restart_infinite_else_first_disconnect_ends:
  "(restart_on_disconnect cfg \<and> Cancel \<notin> set evs \<and> run cfg init evs = Some s \<longrightarrow>
      state s \<noteq> Closed \<and> surfaced s = None
      \<and> (\<exists>e s'. e \<noteq> Cancel \<and> step cfg s e = Some s'))
   \<and> (run cfg init evs = Some s \<longrightarrow> state s \<noteq> Disconnected)
   \<and> (\<not> restart_on_disconnect cfg \<and> run cfg init evs = Some s \<and> state s \<noteq> Closed \<longrightarrow>
      (\<forall>e \<in> set evs. \<not> disconnects cfg e))
   \<and> (\<not> restart_on_disconnect cfg \<and> run cfg init evs = Some s \<and> disconnects cfg e
        \<and> step cfg s e = Some t \<longrightarrow>
      state t = Closed \<and> surfaced t \<noteq> None \<and> emitted t = emitted s)
   \<and> (\<not> restart_on_disconnect cfg \<and> run cfg init evs = Some s \<and> state s = Streaming \<longrightarrow>
      (\<forall>e \<in> set evs. \<not> disconnects cfg e)
      \<and> (\<exists>s'. run cfg init (evs @ [TransportFault r]) = Some s' \<and> state s' = Closed
            \<and> surfaced s' = Some (Failed (TransportError r)) \<and> emitted s' = emitted s
            \<and> (\<forall>e. step cfg s' e = None))
      \<and> (\<exists>s'. run cfg init (evs @ [RemoteClose]) = Some s' \<and> state s' = Closed
            \<and> surfaced s' = Some EndOfStream \<and> emitted s' = emitted s
            \<and> (\<forall>e. step cfg s' e = None)))
   \<and> (\<not> restart_on_disconnect cfg \<and> run cfg init evs = Some s \<and> state s = Connecting
        \<and> descriptor s \<noteq> None \<longrightarrow>
      (\<exists>s'. run cfg init (evs @ [Handshake (Some r)]) = Some s' \<and> state s' = Closed
            \<and> surfaced s' = Some (Failed (TransportError r)) \<and> emitted s' = emitted s
            \<and> (\<forall>e. step cfg s' e = None)))
   \<and> (\<not> restart_on_disconnect cfg \<and> run cfg init evs = Some s \<and> state s = Connecting
        \<and> descriptor s = None \<and> isl (resolve (parse cfg) resp) \<longrightarrow>
      (\<exists>s'. run cfg init (evs @ [Fetched resp]) = Some s' \<and> state s' = Closed
            \<and> surfaced s' = Some (Failed DescriptorUnavailableError)
            \<and> emitted s' = emitted s \<and> (\<forall>e. step cfg s' e = None)))"
proof -
  have on: "state s \<noteq> Closed \<and> surfaced s = None
      \<and> (\<exists>e s'. e \<noteq> Cancel \<and> step cfg s e = Some s')"
    if a: "restart_on_disconnect cfg \<and> Cancel \<notin> set evs \<and> run cfg init evs = Some s"
  proof -
    have i: "state (init :: 'a supervisor) \<noteq> Closed \<and> surfaced (init :: 'a supervisor) = None"
      by (simp add: init_def)
    from a i restart_run [of cfg evs init s]
    have c: "state s \<noteq> Closed \<and> surfaced s = None" by blast
    from a have "supervisor_inv s" using inv_run [OF inv_init] by blast
    with c never_stuck [of s cfg] show ?thesis by blast
  qed
  have nd: "state s \<noteq> Disconnected" if "run cfg init evs = Some s"
  proof -
    from that have "supervisor_inv s" using inv_run [OF inv_init] by blast
    then show ?thesis by (simp add: supervisor_inv_def)
  qed
  have first: "\<forall>e \<in> set evs. \<not> disconnects cfg e"
    if "\<not> restart_on_disconnect cfg \<and> run cfg init evs = Some s \<and> state s \<noteq> Closed"
    using that no_disconnect_before [of cfg init evs s] by blast
  have any: "state t = Closed \<and> surfaced t \<noteq> None \<and> emitted t = emitted s"
    if "\<not> restart_on_disconnect cfg \<and> run cfg init evs = Some s \<and> disconnects cfg e
        \<and> step cfg s e = Some t"
    using that disconnect_surfaces [of cfg e s t] by blast
  have streaming: "(\<forall>e \<in> set evs. \<not> disconnects cfg e)
      \<and> (\<exists>s'. run cfg init (evs @ [TransportFault r]) = Some s' \<and> state s' = Closed
            \<and> surfaced s' = Some (Failed (TransportError r)) \<and> emitted s' = emitted s
            \<and> (\<forall>e. step cfg s' e = None))
      \<and> (\<exists>s'. run cfg init (evs @ [RemoteClose]) = Some s' \<and> state s' = Closed
            \<and> surfaced s' = Some EndOfStream \<and> emitted s' = emitted s
            \<and> (\<forall>e. step cfg s' e = None))"
    if b: "\<not> restart_on_disconnect cfg \<and> run cfg init evs = Some s \<and> state s = Streaming"
  proof -
    from b have "state s \<noteq> Closed" by simp
    with b first have f: "\<forall>e \<in> set evs. \<not> disconnects cfg e" by blast
    from b have r: "run cfg init evs = Some s" by blast
    from b have
      "\<exists>s'. step cfg s (TransportFault r) = Some s' \<and> state s' = Closed
         \<and> surfaced s' = Some (Failed (TransportError r)) \<and> emitted s' = emitted s"
      by (blast intro: fault_closes)
    with r have t: "\<exists>s'. run cfg init (evs @ [TransportFault r]) = Some s' \<and> state s' = Closed
        \<and> surfaced s' = Some (Failed (TransportError r)) \<and> emitted s' = emitted s
        \<and> (\<forall>e. step cfg s' e = None)"
      by (rule run_ends)
    from b have
      "\<exists>s'. step cfg s RemoteClose = Some s' \<and> state s' = Closed
         \<and> surfaced s' = Some EndOfStream \<and> emitted s' = emitted s"
      by (blast intro: close_closes)
    with r have c: "\<exists>s'. run cfg init (evs @ [RemoteClose]) = Some s' \<and> state s' = Closed
        \<and> surfaced s' = Some EndOfStream \<and> emitted s' = emitted s
        \<and> (\<forall>e. step cfg s' e = None)"
      by (rule run_ends)
    from f t c show ?thesis by blast
  qed
  have handshake: "\<exists>s'. run cfg init (evs @ [Handshake (Some r)]) = Some s' \<and> state s' = Closed
        \<and> surfaced s' = Some (Failed (TransportError r)) \<and> emitted s' = emitted s
        \<and> (\<forall>e. step cfg s' e = None)"
    if b: "\<not> restart_on_disconnect cfg \<and> run cfg init evs = Some s \<and> state s = Connecting
        \<and> descriptor s \<noteq> None"
  proof -
    from b have r: "run cfg init evs = Some s" by blast
    from b have
      "\<exists>s'. step cfg s (Handshake (Some r)) = Some s' \<and> state s' = Closed
         \<and> surfaced s' = Some (Failed (TransportError r)) \<and> emitted s' = emitted s"
      by (blast intro: handshake_closes)
    with r show ?thesis by (rule run_ends)
  qed
  have fetch: "\<exists>s'. run cfg init (evs @ [Fetched resp]) = Some s' \<and> state s' = Closed
        \<and> surfaced s' = Some (Failed DescriptorUnavailableError)
        \<and> emitted s' = emitted s \<and> (\<forall>e. step cfg s' e = None)"
    if b: "\<not> restart_on_disconnect cfg \<and> run cfg init evs = Some s \<and> state s = Connecting
        \<and> descriptor s = None \<and> isl (resolve (parse cfg) resp)"
  proof -
    from b have r: "run cfg init evs = Some s" by blast
    from b have
      "\<exists>s'. step cfg s (Fetched resp) = Some s' \<and> state s' = Closed
         \<and> surfaced s' = Some (Failed DescriptorUnavailableError) \<and> emitted s' = emitted s"
      by (blast intro: fetch_closes)
    with r show ?thesis by (rule run_ends)
  qed
  from on nd first any streaming handshake fetch show ?thesis by blast
qed


lemma held_True_Resolved:
  "descriptor_held h pre = Some True \<Longrightarrow> h \<or> (\<exists>d. Resolved d \<in> set pre)"
  by (induction h pre rule: descriptor_held.induct) (auto split: if_splits)

lemma request_after_resolve:
  assumes "descriptor_held False (pre @ RequestPacket # post) = Some h"
  shows "\<exists>d. Resolved d \<in> set pre"
proof -
  from assms obtain h1 where h1: "descriptor_held False pre = Some h1"
      "descriptor_held h1 (RequestPacket # post) = Some h"
    by (auto simp: descriptor_held_append split: option.splits)
  from h1(2) have "h1" by (simp split: if_splits)
  with h1(1) held_True_Resolved [of False pre] show ?thesis by simp
qed

text \<open>
  C5: the resolver fails with \<open>DescriptorUnavailableError\<close> exactly when the endpoint
  exposes no description within the timeout or the description does not parse, and it
  fails in no other way; and in every run of a stream, each request for a raw packet
  comes after a descriptor was resolved, in the same connection attempt.
\<close>

theorem descriptor_resolved_before_packets:
  "(resolve p r = Inl DescriptorUnavailableError \<longleftrightarrow>
      r = NoDescription \<or> (\<exists>txt. r = Description txt \<and> p txt = None))
   \<and> (\<forall>f. resolve p r = Inl f \<longrightarrow> f = DescriptorUnavailableError)
   \<and> (run cfg init evs = Some s \<longrightarrow>
        (\<exists>h. descriptor_held False (actions s) = Some h)
        \<and> (\<forall>pre post. actions s = pre @ RequestPacket # post \<longrightarrow>
              (\<exists>d. Resolved d \<in> set pre)))"
proof (intro conjI impI allI)
  show "resolve p r = Inl DescriptorUnavailableError \<longleftrightarrow>
      r = NoDescription \<or> (\<exists>txt. r = Description txt \<and> p txt = None)"
    by (auto simp: resolve_def split: response.splits option.splits)
next
  fix f assume "resolve p r = Inl f"
  then show "f = DescriptorUnavailableError"
    by (auto simp: resolve_def split: response.splits option.splits)
next
  assume "run cfg init evs = Some s"
  with inv_run [OF inv_init] have "supervisor_inv s" by blast
  then show "\<exists>h. descriptor_held False (actions s) = Some h"
    by (auto simp: supervisor_inv_def split: if_splits)
next
  fix pre post
  assume "run cfg init evs = Some s" and a: "actions s = pre @ RequestPacket # post"
  with inv_run [OF inv_init] have "supervisor_inv s" by blast
  then obtain h where "descriptor_held False (actions s) = Some h"
    by (auto simp: supervisor_inv_def split: if_splits)
  with a show "\<exists>d. Resolved d \<in> set pre"
    by (simp only: request_after_resolve)
qed

text \<open>
  C6: in every run of a stream the network resource is held exactly while the stream is
  \<open>Streaming\<close>, never opened twice nor released twice; and whichever way the packet
  sequence of a streaming session terminates (remote close, transport error, consumer's
  cancellation), the resource is released by that very step.
\<close>

theorem transport_resource_released:
  "run cfg init evs = Some s \<longrightarrow>
     resource_held False (actions s) = Some (state s = Streaming)
     \<and> (state s = Streaming \<and> e \<in> {RemoteClose, TransportFault r, Cancel} \<longrightarrow>
          (\<exists>s'. run cfg init (evs @ [e]) = Some s'
             \<and> resource_held False (actions s') = Some False))"
proof (intro impI conjI)
  assume r: "run cfg init evs = Some s"
  with inv_run [OF inv_init] have i: "supervisor_inv s" by blast
  then show "resource_held False (actions s) = Some (state s = Streaming)"
    by (simp add: supervisor_inv_def)
  assume e: "state s = Streaming \<and> e \<in> {RemoteClose, TransportFault r, Cancel}"
  then obtain s' where s': "step cfg s e = Some s'" "state s' \<noteq> Streaming"
    by (auto simp: step_defs)
  with i have "supervisor_inv s'" by (blast intro: inv_step)
  with s'(2) have "resource_held False (actions s') = Some False"
    by (simp add: supervisor_inv_def)
  moreover from r s'(1) have "run cfg init (evs @ [e]) = Some s'"
    by (simp add: run_snoc)
  ultimately show "\<exists>s'. run cfg init (evs @ [e]) = Some s'
      \<and> resource_held False (actions s') = Some False"
    by blast
qed

lemma feed_samples:
  "samples (foldl (feed L) d ps) = samples d @ map (sample_of L) (filter (well_formed L) ps)"
  by (induction ps arbitrary: d) (auto simp: feed_def gaze_decode_def)

lemma feed_warnings:
  "warnings (foldl (feed L) d ps) = warnings d + length (filter (\<lambda>p. \<not> well_formed L p) ps)"
  by (induction ps arbitrary: d) (auto simp: feed_def gaze_decode_def)

lemma feed_consumed:
  "consumed (foldl (feed L) d ps) = consumed d + length ps"
  by (induction ps arbitrary: d) (auto simp: feed_def split: option.splits)

text \<open>
  C2: over any sequence of raw packets the gaze decoder emits the samples of the
  well-formed packets, in order, one each; it logs one warning for each malformed packet
  and emits nothing for it; and it consumes the whole sequence: the packets that follow a
  malformed one are decoded as if it had not been there.
\<close>

theorem gaze_decoder_drops_malformed:
  "samples (gaze_decoder L ps) = map (sample_of L) (filter (well_formed L) ps)
   \<and> warnings (gaze_decoder L ps) = length (filter (\<lambda>p. \<not> well_formed L p) ps)
   \<and> consumed (gaze_decoder L ps) = length ps
   \<and> (\<not> well_formed L bad \<longrightarrow>
        samples (gaze_decoder L (pre @ bad # post))
          = samples (gaze_decoder L pre) @ samples (gaze_decoder L post))"
proof -
  have s: "samples (gaze_decoder L qs) = map (sample_of L) (filter (well_formed L) qs)" for qs
    by (simp add: gaze_decoder_def feed_samples)
  have w: "warnings (gaze_decoder L ps) = length (filter (\<lambda>p. \<not> well_formed L p) ps)"
    by (simp add: gaze_decoder_def feed_warnings)
  have c: "consumed (gaze_decoder L ps) = length ps"
    by (simp add: gaze_decoder_def feed_consumed)
  have d: "\<not> well_formed L bad \<longrightarrow>
      samples (gaze_decoder L (pre @ bad # post))
        = samples (gaze_decoder L pre) @ samples (gaze_decoder L post)"
    by (simp add: s)
  from s [of ps] w c d show ?thesis by blast
qed

subsection \<open>The scenarios of the specification, run on the sample values\<close>

text \<open>
  A session that delivers two well-formed gaze packets; then either a transport reset
  with restart-on-disconnect off, or a reset followed by a second session with it on, or
  the consumer's cancellation. The decoder scenario has a truncated packet between two
  well-formed ones.
\<close>

lemmas sample_defs = sample_config_def sample_parse_def sample_layout_def gaze_packet_def
  truncated_packet_def gaze_decode_def well_formed_def resolve_def init_def

lemma two_packets_run:
  "\<exists>s. run (sample_config b) init two_packets = Some s \<and> state s = Streaming
     \<and> emitted s = [1, 2]
     \<and> actions s =
         [Resolved \<lparr>media_format = ''gaze'', clock_rate = 90000, payload_type = 96\<rparr>,
          OpenResource, RequestPacket, RequestPacket, RequestPacket]"
  by (simp add: two_packets_def step_defs sample_defs)

lemma reconnected_run:
  "\<exists>s. run (sample_config True) init (two_packets @ [TransportFault reset] @ two_packets)
          = Some s \<and> emitted s = [1, 2, 1, 2]"
  by (simp add: two_packets_def step_defs sample_defs)

lemma resolved_run:
  "\<exists>s. run (sample_config False) init [Fetched (Description ''m=application 0 RTP/AVP 96'')]
          = Some s
     \<and> state s = Connecting \<and> descriptor s \<noteq> None \<and> emitted s = []"
  by (simp add: step_defs sample_defs)

lemma empty_run:
  "run (sample_config False) init [] = Some init \<and> state (init :: int supervisor) = Connecting
   \<and> descriptor (init :: int supervisor) = None \<and> emitted (init :: int supervisor) = []"
  by (simp add: init_def)

theorem restart_infinite_else_first_disconnect_ends_witness:
  "(\<exists>s'. run (sample_config False) init (two_packets @ [TransportFault reset]) = Some s'
       \<and> state s' = Closed \<and> surfaced s' = Some (Failed (TransportError reset))
       \<and> emitted s' = [1, 2])
   \<and> (\<exists>s'. run (sample_config False) init (two_packets @ [RemoteClose]) = Some s'
       \<and> state s' = Closed \<and> surfaced s' = Some EndOfStream \<and> emitted s' = [1, 2])
   \<and> (\<exists>s'. run (sample_config False) init
              [Fetched (Description ''m=application 0 RTP/AVP 96''), Handshake (Some timeout)]
             = Some s'
       \<and> state s' = Closed \<and> surfaced s' = Some (Failed (TransportError timeout))
       \<and> emitted s' = [])
   \<and> (\<exists>s'. run (sample_config False) init [Fetched NoDescription] = Some s'
       \<and> state s' = Closed \<and> surfaced s' = Some (Failed DescriptorUnavailableError)
       \<and> emitted s' = [])
   \<and> (\<exists>s. run (sample_config True) init (two_packets @ [TransportFault reset] @ two_packets)
             = Some s
       \<and> state s \<noteq> Closed \<and> surfaced s = None \<and> emitted s = [1, 2, 1, 2])"
proof -
  let ?off = "sample_config False"
  let ?on = "sample_config True"
  let ?sdp = "Fetched (Description ''m=application 0 RTP/AVP 96'')"
  obtain s where s: "run ?off init two_packets = Some s"
      "state s = Streaming" "emitted s = [1, 2]"
    using two_packets_run [of False] by blast
  have off: "\<not> restart_on_disconnect ?off"
    by (simp add: sample_config_def)
  from restart_infinite_else_first_disconnect_ends [of ?off two_packets s RemoteClose s reset NoDescription] off s(1,2)
  have "\<exists>s'. run ?off init (two_packets @ [TransportFault reset]) = Some s'
       \<and> state s' = Closed \<and> surfaced s' = Some (Failed (TransportError reset))
       \<and> emitted s' = emitted s"
    by blast
  with s(3)
  have a: "\<exists>s'. run ?off init (two_packets @ [TransportFault reset]) = Some s'
       \<and> state s' = Closed \<and> surfaced s' = Some (Failed (TransportError reset))
       \<and> emitted s' = [1, 2]"
    by simp
  from restart_infinite_else_first_disconnect_ends [of ?off two_packets s RemoteClose s reset NoDescription] off s(1,2)
  have "\<exists>s'. run ?off init (two_packets @ [RemoteClose]) = Some s'
       \<and> state s' = Closed \<and> surfaced s' = Some EndOfStream \<and> emitted s' = emitted s"
    by blast
  with s(3)
  have b: "\<exists>s'. run ?off init (two_packets @ [RemoteClose]) = Some s'
       \<and> state s' = Closed \<and> surfaced s' = Some EndOfStream \<and> emitted s' = [1, 2]"
    by simp
  obtain c where c: "run ?off init [?sdp] = Some c" "state c = Connecting"
      "descriptor c \<noteq> None" "emitted c = []"
    using resolved_run by blast
  from restart_infinite_else_first_disconnect_ends [of ?off "[?sdp]" c RemoteClose c timeout NoDescription] off c(1,2,3)
  have "\<exists>s'. run ?off init ([?sdp] @ [Handshake (Some timeout)]) = Some s'
       \<and> state s' = Closed \<and> surfaced s' = Some (Failed (TransportError timeout))
       \<and> emitted s' = emitted c"
    by blast
  with c(4) have h: "\<exists>s'. run ?off init [?sdp, Handshake (Some timeout)] = Some s'
       \<and> state s' = Closed \<and> surfaced s' = Some (Failed (TransportError timeout))
       \<and> emitted s' = []"
    by simp
  have i: "run ?off init [] = Some init" "state (init :: int supervisor) = Connecting"
      "descriptor (init :: int supervisor) = None" "emitted (init :: int supervisor) = []"
    using empty_run by simp_all
  have n: "isl (resolve (parse ?off) NoDescription)"
    by (simp add: resolve_def)
  from restart_infinite_else_first_disconnect_ends [of ?off "[]" init RemoteClose init reset NoDescription] off i(1,2,3) n
  have "\<exists>s'. run ?off init ([] @ [Fetched NoDescription]) = Some s'
       \<and> state s' = Closed \<and> surfaced s' = Some (Failed DescriptorUnavailableError)
       \<and> emitted s' = emitted (init :: int supervisor)"
    by blast
  with i(4) have f: "\<exists>s'. run ?off init [Fetched NoDescription] = Some s'
       \<and> state s' = Closed \<and> surfaced s' = Some (Failed DescriptorUnavailableError)
       \<and> emitted s' = []"
    by simp
  obtain u where u:
      "run ?on init (two_packets @ [TransportFault reset] @ two_packets) = Some u"
      "emitted u = [1, 2, 1, 2]"
    using reconnected_run by blast
  have on: "restart_on_disconnect ?on"
    by (simp add: sample_config_def)
  have nc: "Cancel \<notin> set (two_packets @ [TransportFault reset] @ two_packets)"
    by (simp add: two_packets_def)
  from restart_infinite_else_first_disconnect_ends [of ?on "two_packets @ [TransportFault reset] @ two_packets" u RemoteClose u
      reset NoDescription] on nc u(1)
  have "state u \<noteq> Closed \<and> surfaced u = None" by blast
  with u have r: "\<exists>s. run ?on init (two_packets @ [TransportFault reset] @ two_packets) = Some s
       \<and> state s \<noteq> Closed \<and> surfaced s = None \<and> emitted s = [1, 2, 1, 2]"
    by blast
  from a b h f r show ?thesis by blast
qed

theorem descriptor_resolved_before_packets_witness:
  "resolve sample_parse NoDescription = Inl DescriptorUnavailableError
   \<and> resolve sample_parse (Description ''v=1'') = Inl DescriptorUnavailableError
   \<and> (\<exists>s. run (sample_config False) init two_packets = Some s
        \<and> actions s =
            [Resolved \<lparr>media_format = ''gaze'', clock_rate = 90000, payload_type = 96\<rparr>,
             OpenResource] @ RequestPacket # [RequestPacket, RequestPacket]
        \<and> (\<exists>d. Resolved d
              \<in> set [Resolved \<lparr>media_format = ''gaze'', clock_rate = 90000,
                                payload_type = 96\<rparr>, OpenResource]))"
proof -
  let ?d = "\<lparr>media_format = ''gaze'', clock_rate = 90000, payload_type = 96\<rparr>"
  obtain s where s: "run (sample_config False) init two_packets = Some s"
      "actions s = [Resolved ?d, OpenResource] @ RequestPacket # [RequestPacket, RequestPacket]"
    using two_packets_run [of False] by auto
  have g: "sample_parse ''v=1'' = None"
    by (simp add: sample_parse_def)
  from descriptor_resolved_before_packets
    [of sample_parse NoDescription "sample_config False" two_packets s]
  have a: "resolve sample_parse NoDescription = Inl DescriptorUnavailableError"
    by blast
  from descriptor_resolved_before_packets
    [of sample_parse "Description ''v=1''" "sample_config False" two_packets s] g
  have b: "resolve sample_parse (Description ''v=1'') = Inl DescriptorUnavailableError"
    by blast
  from descriptor_resolved_before_packets
    [of sample_parse NoDescription "sample_config False" two_packets s] s
  have c: "\<exists>d. Resolved d \<in> set [Resolved ?d, OpenResource]"
    by blast
  from a b c s show ?thesis by blast
qed

theorem transport_resource_released_witness:
  "(\<exists>s. run (sample_config False) init two_packets = Some s \<and> state s = Streaming
       \<and> resource_held False (actions s) = Some True)
   \<and> (\<exists>s'. run (sample_config False) init (two_packets @ [Cancel]) = Some s'
       \<and> resource_held False (actions s') = Some False)"
proof -
  obtain s where s: "run (sample_config False) init two_packets = Some s"
      "state s = Streaming"
    using two_packets_run [of False] by blast
  from transport_resource_released [of "sample_config False" two_packets s Cancel reset] s
  have "resource_held False (actions s) = Some True
      \<and> (\<exists>s'. run (sample_config False) init (two_packets @ [Cancel]) = Some s'
           \<and> resource_held False (actions s') = Some False)"
    by simp
  with s show ?thesis by blast
qed

lemma gaze_packet_well_formed: "well_formed sample_layout (gaze_packet t)"
  by (simp add: well_formed_def sample_layout_def gaze_packet_def)

lemma truncated_packet_malformed: "\<not> well_formed sample_layout (truncated_packet t)"
  by (simp add: well_formed_def sample_layout_def truncated_packet_def)

theorem gaze_decoder_drops_malformed_witness:
  "\<not> well_formed sample_layout (truncated_packet 2)
   \<and> samples (gaze_decoder sample_layout [gaze_packet 1, truncated_packet 2, gaze_packet 3])
       = [1, 3]
   \<and> samples (gaze_decoder sample_layout [gaze_packet 1, truncated_packet 2, gaze_packet 3])
       = samples (gaze_decoder sample_layout [gaze_packet 1])
         @ samples (gaze_decoder sample_layout [gaze_packet 3])
   \<and> warnings (gaze_decoder sample_layout [gaze_packet 1, truncated_packet 2, gaze_packet 3])
       = 1
   \<and> consumed (gaze_decoder sample_layout [gaze_packet 1, truncated_packet 2, gaze_packet 3])
       = 3"
proof -
  let ?ps = "[gaze_packet 1, truncated_packet 2, gaze_packet 3]"
  have t: "sample_of sample_layout (gaze_packet t) = t" for t
    by (simp add: sample_layout_def gaze_packet_def)
  have wf: "filter (well_formed sample_layout) ?ps = [gaze_packet 1, gaze_packet 3]"
    by (simp add: gaze_packet_well_formed truncated_packet_malformed)
  have nwf: "filter (\<lambda>p. \<not> well_formed sample_layout p) ?ps = [truncated_packet 2]"
    by (simp add: gaze_packet_well_formed truncated_packet_malformed)
  note th = gaze_decoder_drops_malformed
    [of sample_layout ?ps "truncated_packet 2" "[gaze_packet 1]" "[gaze_packet 3]"]
  from th have "samples (gaze_decoder sample_layout ?ps)
      = map (sample_of sample_layout) (filter (well_formed sample_layout) ?ps)"
    by blast
  then have a: "samples (gaze_decoder sample_layout ?ps) = [1, 3]"
    by (simp only: wf list.map t)
  from th truncated_packet_malformed [of 2]
  have "samples (gaze_decoder sample_layout ([gaze_packet 1] @ truncated_packet 2 # [gaze_packet 3]))
      = samples (gaze_decoder sample_layout [gaze_packet 1])
        @ samples (gaze_decoder sample_layout [gaze_packet 3])"
    by blast
  then have b: "samples (gaze_decoder sample_layout ?ps)
      = samples (gaze_decoder sample_layout [gaze_packet 1])
        @ samples (gaze_decoder sample_layout [gaze_packet 3])"
    by simp
  from th have "warnings (gaze_decoder sample_layout ?ps)
      = length (filter (\<lambda>p. \<not> well_formed sample_layout p) ?ps)"
    by blast
  then have c: "warnings (gaze_decoder sample_layout ?ps) = 1"
    by (simp only: nwf list.size)
  from th have "consumed (gaze_decoder sample_layout ?ps) = length ?ps"
    by blast
  then have d: "consumed (gaze_decoder sample_layout ?ps) = 3"
    by simp
  from a b c d truncated_packet_malformed [of 2] show ?thesis by blast
qed

end
